theory Spec2Isabelle
  imports Complex_Main "HOL-Library.Product_Lexorder" "HOL-Library.Sublist"
begin

section \<open>Data model of BeWeatherReady.py\<close>

text \<open>
  Python's \<^verbatim>\<open>datetime\<close> (and the pandas \<^verbatim>\<open>Timestamp\<close> built on it) is a value with the
  calendar fields below; two of them compare field by field, from the year down to the
  microsecond.  \<open>stamp\<close> is that comparison key, ordered lexicographically.
\<close>

record datetime =
  year :: nat
  month :: nat
  day :: nat
  hour :: nat
  minute :: nat
  second :: nat
  microsecond :: nat

type_synonym date = "nat \<times> nat \<times> nat"

definition stamp :: "datetime \<Rightarrow> nat \<times> nat \<times> nat \<times> nat \<times> nat \<times> nat \<times> nat" where
  "stamp t = (year t, month t, day t, hour t, minute t, second t, microsecond t)"

definition date_of :: "datetime \<Rightarrow> date" where
  "date_of t = (year t, month t, day t)"

text \<open>
  One row of the frame that \<^verbatim>\<open>update_forecast\<close> builds from the feed's hourly arrays.
  The feed's time array holds a timestamp at every position; each of the four measurements
  may be missing (\<^verbatim>\<open>null\<close> in the feed, \<^verbatim>\<open>NaN\<close> in the frame), which is \<open>None\<close> here.
  Measurements are modelled as real numbers, so the rounding of floating point arithmetic
  and of the formatted messages is outside the model.  A feed with a \<^verbatim>\<open>null\<close> in its time
  array is outside the model as well.
\<close>

record row =
  Time :: datetime
  temperature :: "real option"
  wind_speed :: "real option"
  humidity :: "real option"
  precipitation :: "real option"

type_synonym frame = "row list"

section \<open>Cleaning\<close>

text \<open>
  \<^verbatim>\<open>df.drop_duplicates(subset=['Time'])\<close> walks the rows in order and drops each row whose
  \<^verbatim>\<open>Time\<close> was already seen (\<^verbatim>\<open>keep='first'\<close> is the default).
\<close>

fun drop_duplicates_seen :: "datetime list \<Rightarrow> frame \<Rightarrow> frame" where
  "drop_duplicates_seen seen [] = []"
| "drop_duplicates_seen seen (r # rs) =
     (if Time r \<in> set seen then drop_duplicates_seen seen rs
      else r # drop_duplicates_seen (Time r # seen) rs)"

definition drop_duplicates :: "frame \<Rightarrow> frame" where
  "drop_duplicates df = drop_duplicates_seen [] df"

text \<open>
  \<^verbatim>\<open>fillna(method='ffill')\<close> replaces, column by column, a missing cell by the last valid
  cell above it, and leaves it missing when there is none.
\<close>

definition fill_cell :: "'a option \<Rightarrow> 'a option \<Rightarrow> 'a option" where
  "fill_cell prev v = (case v of None \<Rightarrow> prev | Some x \<Rightarrow> Some x)"

fun ffill_last ::
  "real option \<Rightarrow> real option \<Rightarrow> real option \<Rightarrow> real option \<Rightarrow> frame \<Rightarrow> frame" where
  "ffill_last t w h p [] = []"
| "ffill_last t w h p (r # rs) =
     (let t' = fill_cell t (temperature r);
          w' = fill_cell w (wind_speed r);
          h' = fill_cell h (humidity r);
          p' = fill_cell p (precipitation r)
      in r\<lparr>temperature := t', wind_speed := w', humidity := h', precipitation := p'\<rparr>
         # ffill_last t' w' h' p' rs)"

definition ffill :: "frame \<Rightarrow> frame" where
  "ffill df = ffill_last None None None None df"

definition clean_data :: "frame \<Rightarrow> frame" where
  "clean_data df = ffill (drop_duplicates df)"

section \<open>Windowing\<close>

text \<open>
  \<^verbatim>\<open>df_24h\<close> is the cleaned frame restricted to the target date, extended by the column
  \<^verbatim>\<open>temperature_F\<close>, and then, when \<^verbatim>\<open>alert_start_hour\<close> is set, restricted to the rows
  whose hour is greater than it.  Arithmetic on a missing cell gives a missing cell, and a
  comparison with a missing cell is false.
\<close>

record row24 = row +
  temperature_F :: "real option"

type_synonym frame24 = "row24 list"

definition to_fahrenheit :: "real option \<Rightarrow> real option" where
  "to_fahrenheit c = map_option (\<lambda>x. x * 9 / 5 + 32) c"

definition add_temperature_F :: "row \<Rightarrow> row24" where
  "add_temperature_F r = row.extend r \<lparr>temperature_F = to_fahrenheit (temperature r)\<rparr>"

definition df_24h :: "frame \<Rightarrow> date \<Rightarrow> int option \<Rightarrow> frame24" where
  "df_24h df_clean target_date alert_start_hour =
     (let d = map add_temperature_F (filter (\<lambda>r. date_of (Time r) = target_date) df_clean)
      in case alert_start_hour of
           None \<Rightarrow> d
         | Some h \<Rightarrow> filter (\<lambda>r. int (hour (Time r)) > h) d)"

definition gt_cell :: "real option \<Rightarrow> real \<Rightarrow> bool" where
  "gt_cell v m = (case v of None \<Rightarrow> False | Some x \<Rightarrow> x > m)"

definition lt_cell :: "real option \<Rightarrow> real \<Rightarrow> bool" where
  "lt_cell v m = (case v of None \<Rightarrow> False | Some x \<Rightarrow> x < m)"

section \<open>Alerts\<close>

text \<open>
  An alert is one of the five message formats, the cell printed in it and the row's time.
  The list \<^verbatim>\<open>alerts\<close> starts empty and is extended by one block per threshold that is set.
\<close>

datatype alert_kind = Max_temp | Min_temp | Max_wind | Min_humidity | Precip

datatype alert = Alert (kind: alert_kind) (observed: "real option") (alert_time: datetime)

definition alerts ::
  "frame24 \<Rightarrow> real option \<Rightarrow> real option \<Rightarrow> real option \<Rightarrow> real option \<Rightarrow> real option
   \<Rightarrow> alert list" where
  "alerts df max_temp min_temp max_wind min_humidity precip_threshold =
     (let a0 = [];
          a1 = (case max_temp of None \<Rightarrow> a0
                | Some m \<Rightarrow> a0 @ map (\<lambda>r. Alert Max_temp (temperature r) (Time r))
                                    (filter (\<lambda>r. gt_cell (temperature r) m) df));
          a2 = (case min_temp of None \<Rightarrow> a1
                | Some m \<Rightarrow> a1 @ map (\<lambda>r. Alert Min_temp (temperature r) (Time r))
                                    (filter (\<lambda>r. lt_cell (temperature r) m) df));
          a3 = (case max_wind of None \<Rightarrow> a2
                | Some m \<Rightarrow> a2 @ map (\<lambda>r. Alert Max_wind (wind_speed r) (Time r))
                                    (filter (\<lambda>r. gt_cell (wind_speed r) m) df));
          a4 = (case min_humidity of None \<Rightarrow> a3
                | Some m \<Rightarrow> a3 @ map (\<lambda>r. Alert Min_humidity (humidity r) (Time r))
                                    (filter (\<lambda>r. lt_cell (humidity r) m) df));
          a5 = (case precip_threshold of None \<Rightarrow> a4
                | Some m \<Rightarrow> a4 @ map (\<lambda>r. Alert Precip (precipitation r) (Time r))
                                    (filter (\<lambda>r. gt_cell (precipitation r) m) df))
      in a5)"

section \<open>Summary of the last hour\<close>

text \<open>
  \<^verbatim>\<open>datetime.now() - timedelta(hours=1)\<close> on the calendar fields.  (Python raises
  \<^verbatim>\<open>OverflowError\<close> in the first hour of the year 1, which no clock reads.)
\<close>

definition is_leap :: "nat \<Rightarrow> bool" where
  "is_leap y = (y mod 4 = 0 \<and> (y mod 100 \<noteq> 0 \<or> y mod 400 = 0))"

definition days_in_month :: "nat \<Rightarrow> nat \<Rightarrow> nat" where
  "days_in_month y m =
     (if m = 2 then (if is_leap y then 29 else 28)
      else if m = 4 \<or> m = 6 \<or> m = 9 \<or> m = 11 then 30 else 31)"

definition minus_one_hour :: "datetime \<Rightarrow> datetime" where
  "minus_one_hour t =
     (if hour t > 0 then t\<lparr>hour := hour t - 1\<rparr>
      else if day t > 1 then t\<lparr>day := day t - 1, hour := 23\<rparr>
      else if month t > 1
        then t\<lparr>month := month t - 1, day := days_in_month (year t) (month t - 1), hour := 23\<rparr>
      else t\<lparr>year := year t - 1, month := 12, day := 31, hour := 23\<rparr>)"

text \<open>
  \<^verbatim>\<open>Series.diff()\<close>: the first cell is missing, every other cell is the difference to the
  cell above it.  \<^verbatim>\<open>.abs()\<close> keeps a missing cell missing.
\<close>

definition sub_cell :: "real option \<Rightarrow> real option \<Rightarrow> real option" where
  "sub_cell a b = (case a of None \<Rightarrow> None
                   | Some x \<Rightarrow> (case b of None \<Rightarrow> None | Some y \<Rightarrow> Some (x - y)))"

fun diff_above :: "real option \<Rightarrow> real option list \<Rightarrow> real option list" where
  "diff_above a [] = []"
| "diff_above a (x # xs) = sub_cell x a # diff_above x xs"

fun diff :: "real option list \<Rightarrow> real option list" where
  "diff [] = []"
| "diff (x # xs) = None # diff_above x xs"

definition abs_col :: "real option list \<Rightarrow> real option list" where
  "abs_col xs = map (map_option abs) xs"

text \<open>
  \<^verbatim>\<open>max()\<close> skips missing cells and is missing when no cell is left; \<^verbatim>\<open>idxmax()\<close> is the
  label of the first cell that holds that maximum, and missing when there is none (so it
  is in the pandas releases before 3.0, the ones that accept the source's
  \<^verbatim>\<open>fillna(method='ffill')\<close>; later ones raise \<^verbatim>\<open>ValueError\<close> on a series of missing cells).
\<close>

fun max_skipna :: "real option list \<Rightarrow> real option" where
  "max_skipna [] = None"
| "max_skipna (x # xs) =
     (case x of None \<Rightarrow> max_skipna xs
      | Some v \<Rightarrow> (case max_skipna xs of None \<Rightarrow> Some v | Some m \<Rightarrow> Some (max v m)))"

definition idxmax :: "(string \<times> real option) list \<Rightarrow> string option" where
  "idxmax s = (case max_skipna (map snd s) of None \<Rightarrow> None
               | Some m \<Rightarrow> map_option fst (find (\<lambda>lv. snd lv = Some m) s))"

text \<open>
  The summary is one of the four messages of the source, with the magnitude it prints.
  \<^verbatim>\<open>sort_values("Time")\<close> orders the rows by time; the rows of a cleaned frame have distinct
  times, so the result does not depend on the sorting algorithm.  In the test
  \<^verbatim>\<open>biggest_change_value and biggest_change_value > 0\<close> a missing value is true as a
  condition and false in the comparison, and zero is false as a condition.
\<close>

datatype summary =
    No_significant_changes
  | Temperature_changed real
  | Wind_Speed_changed real
  | Humidity_changed real

definition df_last_hour :: "frame24 \<Rightarrow> datetime \<Rightarrow> frame24" where
  "df_last_hour df now =
     (let last_hour = minus_one_hour now
      in sort_key (\<lambda>r. stamp (Time r)) (filter (\<lambda>r. stamp (Time r) \<ge> stamp last_hour) df))"

definition max_change :: "frame24 \<Rightarrow> (string \<times> real option) list" where
  "max_change dl =
     [(''temp_diff'', max_skipna (abs_col (diff (map temperature dl)))),
      (''wind_diff'', max_skipna (abs_col (diff (map wind_speed dl)))),
      (''humidity_diff'', max_skipna (abs_col (diff (map humidity dl))))]"

definition summary_text :: "frame24 \<Rightarrow> datetime \<Rightarrow> summary" where
  "summary_text df now =
     (let mc = max_change (df_last_hour df now);
          biggest_change_metric = idxmax mc;
          biggest_change_value = max_skipna (map snd mc)
      in case biggest_change_value of
           None \<Rightarrow> No_significant_changes
         | Some v \<Rightarrow>
             if v \<noteq> 0 \<and> v > 0 then
               (if biggest_change_metric = Some ''temp_diff'' then Temperature_changed v
                else if biggest_change_metric = Some ''wind_diff'' then Wind_Speed_changed v
                else if biggest_change_metric = Some ''humidity_diff'' then Humidity_changed v
                else No_significant_changes)
             else No_significant_changes)"

section \<open>Report table\<close>

text \<open>
  \<^verbatim>\<open>strftime\<close> prints the month, day, hour, minute and second with two digits and the year
  with four, which is what \<open>dec2\<close> and \<open>dec4\<close> give for the fields of a \<^verbatim>\<open>datetime\<close>
  (a year from 1000 to 9999, the other fields below 100).
\<close>

definition digit :: "nat \<Rightarrow> char" where
  "digit d = char_of (48 + d)"

definition dec2 :: "nat \<Rightarrow> string" where
  "dec2 n = [digit (n div 10 mod 10), digit (n mod 10)]"

definition dec4 :: "nat \<Rightarrow> string" where
  "dec4 n = dec2 (n div 100) @ dec2 (n mod 100)"

definition strftime_Ymd_HMS :: "datetime \<Rightarrow> string" where
  "strftime_Ymd_HMS t =
     dec4 (year t) @ dec2 (month t) @ dec2 (day t) @ ''_'' @
     dec2 (hour t) @ dec2 (minute t) @ dec2 (second t)"

definition strftime_Ymd :: "datetime \<Rightarrow> string" where
  "strftime_Ymd t = dec4 (year t) @ dec2 (month t) @ dec2 (day t)"

definition strftime_Y_m_d_HM :: "datetime \<Rightarrow> string" where
  "strftime_Y_m_d_HM t =
     dec4 (year t) @ ''-'' @ dec2 (month t) @ ''-'' @ dec2 (day t) @ '' '' @
     dec2 (hour t) @ '':'' @ dec2 (minute t)"

text \<open>
  The table has the formatted time, the temperature in the selected unit under a label
  that names the unit (the degree sign is character 176), and the three other columns.
\<close>

record table_row =
  Time_col :: string
  Temp_col :: "real option"
  Wind_col :: "real option"
  Humidity_col :: "real option"
  Precip_col :: "real option"

record report =
  columns :: "string list"
  body :: "table_row list"

definition df_table :: "frame24 \<Rightarrow> string \<Rightarrow> report" where
  "df_table df temp_unit =
     (if temp_unit = ''C'' then
        \<lparr>columns = [''Time'', ''Temp ('' @ [char_of (176::nat)] @ ''C)'', ''Wind (km/h)'',
                     ''Humidity (%)'', ''Precip (mm)''],
         body = map (\<lambda>r. \<lparr>Time_col = strftime_Y_m_d_HM (Time r), Temp_col = temperature r,
                           Wind_col = wind_speed r, Humidity_col = humidity r,
                           Precip_col = precipitation r\<rparr>) df\<rparr>
      else
        \<lparr>columns = [''Time'', ''Temp ('' @ [char_of (176::nat)] @ ''F)'', ''Wind (km/h)'',
                     ''Humidity (%)'', ''Precip (mm)''],
         body = map (\<lambda>r. \<lparr>Time_col = strftime_Y_m_d_HM (Time r),
                           Temp_col = to_fahrenheit (temperature r),
                           Wind_col = wind_speed r, Humidity_col = humidity r,
                           Precip_col = precipitation r\<rparr>) df\<rparr>)"

section \<open>Snapshots\<close>

text \<open>
  The files written by \<^verbatim>\<open>to_csv\<close> are a map from path to content; writing to a path
  replaces what the path held.  The time of the write is the reading of the clock that
  each function takes itself.
\<close>

type_synonym 'c store = "string \<rightharpoonup> 'c"

definition RAW_DATA_DIR :: string where "RAW_DATA_DIR = ''raw_weather_data''"
definition CLEAN_DATA_DIR :: string where "CLEAN_DATA_DIR = ''cleaned_weather_data''"
definition REPORT_DIR :: string where "REPORT_DIR = ''weather_reports''"

text \<open>
  \<^verbatim>\<open>os.path.join\<close> of two components: a second component that starts with a slash
  replaces the first; otherwise the two are joined by a slash, unless the first is empty or
  ends with one.
\<close>

definition path_join :: "string \<Rightarrow> string \<Rightarrow> string" where
  "path_join a b =
     (case b of
        c # _ \<Rightarrow> if c = CHR ''/'' then b
                 else if a = [] \<or> last a = CHR ''/'' then a @ b else a @ ''/'' @ b
      | [] \<Rightarrow> if a = [] \<or> last a = CHR ''/'' then a @ b else a @ ''/'' @ b)"

definition raw_path :: "string \<Rightarrow> datetime \<Rightarrow> string" where
  "raw_path city_upper now =
     path_join RAW_DATA_DIR (city_upper @ ''_raw_'' @ strftime_Ymd_HMS now @ ''.csv'')"

definition clean_path :: "string \<Rightarrow> datetime \<Rightarrow> string" where
  "clean_path city_upper now =
     path_join CLEAN_DATA_DIR (city_upper @ ''_cleaned_'' @ strftime_Ymd_HMS now @ ''.csv'')"

definition report_path :: "string \<Rightarrow> datetime \<Rightarrow> string" where
  "report_path city_upper now =
     path_join REPORT_DIR (city_upper @ ''_hourly_report_'' @ strftime_Ymd now @ ''.csv'')"

definition save_raw_data :: "string \<Rightarrow> datetime \<Rightarrow> 'c \<Rightarrow> 'c store \<Rightarrow> 'c store" where
  "save_raw_data city_upper now df fs = fs(raw_path city_upper now \<mapsto> df)"

definition save_clean_data :: "string \<Rightarrow> datetime \<Rightarrow> 'c \<Rightarrow> 'c store \<Rightarrow> 'c store" where
  "save_clean_data city_upper now df_clean fs = fs(clean_path city_upper now \<mapsto> df_clean)"

definition save_daily_report :: "string \<Rightarrow> datetime \<Rightarrow> 'c \<Rightarrow> 'c store \<Rightarrow> 'c store" where
  "save_daily_report city_upper now df fs = fs(report_path city_upper now \<mapsto> df)"

section \<open>The forecast callback\<close>

definition CITIES :: "(string \<times> real \<times> real) list" where
  "CITIES =
     [(''NEW YORK'', 40.7128, - 74.0060),
      (''LONDON'', 51.5072, - 0.1276),
      (''TOKYO'', 35.6895, 139.6917),
      (''BERLIN'', 52.5200, 13.4050),
      (''SYDNEY'', - 33.8688, 151.2093),
      (''MUMBAI'', 19.0760, 72.8777),
      (''SAO PAULO'', - 23.5505, - 46.6333),
      (''CAPE TOWN'', - 33.9249, 18.4241)]"

text \<open>\<^verbatim>\<open>str.upper()\<close> on the letters a to z; other characters are kept.\<close>

definition upper_char :: "char \<Rightarrow> char" where
  "upper_char c =
     (let n = (of_char c :: nat) in if 97 \<le> n \<and> n \<le> 122 then char_of (n - 32) else c)"

definition upper :: "string \<Rightarrow> string" where
  "upper s = map upper_char s"

text \<open>
  The callback's state inputs.  \<open>picked_date\<close> is the parsed date of the date picker when the
  date picker triggered the callback with a date, and \<open>None\<close> otherwise.  The callback reads
  the clock five times: for today's date, in each of the three writes and for the summary.
  The frame \<open>df\<close> is the one built from the feed's response.  The figure and the icon cards
  are not part of the model, except that building a card raises \<^verbatim>\<open>KeyError\<close> for a metric
  that has no icon; the two files written before that stay written.
\<close>

record query =
  city :: string
  max_temp :: "real option"
  min_temp :: "real option"
  max_wind :: "real option"
  min_humidity :: "real option"
  temp_unit :: string
  precip_threshold :: "real option"
  detailed_feature :: string
  alert_start_hour :: "int option"
  picked_date :: "date option"

record clock =
  now_today :: datetime
  now_raw :: datetime
  now_clean :: datetime
  now_summary :: datetime
  now_report :: datetime

datatype snapshot = Csv_frame frame | Csv_report report

datatype py_error = KeyError string

record result_bundle =
  alert_events :: "alert list"
  alert_displayed :: bool
  summary_widget :: summary
  forecast_table :: report

datatype outcome = No_update | Updated result_bundle

definition icon_map_keys :: "string list" where
  "icon_map_keys = [''temperature'', ''wind_speed'', ''humidity'', ''precipitation'']"

definition features :: "string \<Rightarrow> string list" where
  "features feat = (if feat = ''all'' then icon_map_keys else [feat])"

definition update_forecast ::
  "query \<Rightarrow> clock \<Rightarrow> frame \<Rightarrow> snapshot store \<Rightarrow> snapshot store \<times> (py_error + outcome)" where
  "update_forecast q clk df fs =
     (if city q = [] then (fs, Inr No_update)
      else
        let city_upper = upper (city q) in
        case map_of CITIES city_upper of
          None \<Rightarrow> (fs, Inl (KeyError city_upper))
        | Some latlon \<Rightarrow>
            let today = date_of (now_today clk);
                target_date = (case picked_date q of None \<Rightarrow> today | Some d \<Rightarrow> d);
                fs1 = save_raw_data city_upper (now_raw clk) (Csv_frame df) fs;
                df_clean = clean_data df;
                fs2 = save_clean_data city_upper (now_clean clk) (Csv_frame df_clean) fs1;
                w = df_24h df_clean target_date (alert_start_hour q)
            in case find (\<lambda>f. f \<notin> set icon_map_keys) (features (detailed_feature q)) of
                 Some f \<Rightarrow> (fs2, Inl (KeyError f))
               | None \<Rightarrow>
                   let al = alerts w (max_temp q) (min_temp q) (max_wind q) (min_humidity q)
                              (precip_threshold q);
                       st = summary_text w (now_summary clk);
                       tb = df_table w (temp_unit q);
                       fs3 = save_daily_report city_upper (now_report clk) (Csv_report tb) fs2
                   in (fs3, Inr (Updated \<lparr>alert_events = al, alert_displayed = (al \<noteq> []),
                                           summary_widget = st, forecast_table = tb\<rparr>)))"

section \<open>Notions used in the statements\<close>

text \<open>A frame is sorted by time when the comparison keys of its rows ascend.\<close>

definition sorted_by_time :: "('a row_scheme) list \<Rightarrow> bool" where
  "sorted_by_time df = sorted (map (\<lambda>r. stamp (Time r)) df)"



text \<open>Sample observations on 17 May 2024, used to evaluate the functions.\<close>

definition at_hour :: "nat \<Rightarrow> datetime" where
  "at_hour h =
     \<lparr>year = 2024, month = 5, day = 17, hour = h, minute = 0, second = 0, microsecond = 0\<rparr>"

definition obs :: "nat \<Rightarrow> real option \<Rightarrow> real option \<Rightarrow> real option \<Rightarrow> real option \<Rightarrow> row" where
  "obs h t w u p =
     \<lparr>Time = at_hour h, temperature = t, wind_speed = w, humidity = u, precipitation = p\<rparr>"

text \<open>The alerts of one kind, in the order in which they stand in the alert list.\<close>

definition of_kind :: "alert_kind \<Rightarrow> alert list \<Rightarrow> alert list" where
  "of_kind k as = filter (\<lambda>a. kind a = k) as"

text \<open>The alert list of a run of the callback, when the run produced a result.\<close>

definition alerts_of :: "snapshot store \<times> (py_error + outcome) \<Rightarrow> alert list option" where
  "alerts_of res =
     (case snd res of
        Inr (Updated b) \<Rightarrow> Some (alert_events b)
      | Inr No_update \<Rightarrow> None
      | Inl e \<Rightarrow> None)"

text \<open>A sample clock, every reading at the given hour of 17 May 2024, and a sample query.\<close>

definition clock_at :: "nat \<Rightarrow> clock" where
  "clock_at h =
     \<lparr>now_today = at_hour h, now_raw = at_hour h, now_clean = at_hour h,
      now_summary = at_hour h, now_report = at_hour h\<rparr>"

definition london :: query where
  "london =
     \<lparr>city = ''London'', max_temp = Some 30, min_temp = Some 25, max_wind = None,
      min_humidity = None, temp_unit = ''C'', precip_threshold = None,
      detailed_feature = ''all'', alert_start_hour = None, picked_date = None\<rparr>"

text \<open>The windowed frame \<^verbatim>\<open>df_24h\<close> that a run of the callback computes from the feed.\<close>

definition windowed :: "query \<Rightarrow> clock \<Rightarrow> frame \<Rightarrow> frame24" where
  "windowed q clk df =
     df_24h (clean_data df)
       (case picked_date q of None \<Rightarrow> date_of (now_today clk) | Some d \<Rightarrow> d)
       (alert_start_hour q)"

section \<open>The summary as the specification words it\<close>

text \<open>
  The specification of the summary: restrict the frame to the rows from one hour before
  \<open>now\<close> on, in time order; for each of temperature, wind speed and humidity take the
  greatest absolute difference between a row and the row before it (there is none when no
  two adjacent rows both have the value); select the metric whose greatest difference is
  greatest, temperature before wind speed before humidity on a tie; report no significant
  change when none of the three is positive.
\<close>

fun changes_from :: "real option \<Rightarrow> real option list \<Rightarrow> real list" where
  "changes_from a [] = []"
| "changes_from a (x # xs) =
     (case a of None \<Rightarrow> changes_from x xs
      | Some u \<Rightarrow> (case x of None \<Rightarrow> changes_from x xs
                    | Some v \<Rightarrow> \<bar>v - u\<bar> # changes_from x xs))"

fun adjacent_changes :: "real option list \<Rightarrow> real list" where
  "adjacent_changes [] = []"
| "adjacent_changes (x # xs) = changes_from x xs"

definition greatest_change :: "real option list \<Rightarrow> real option" where
  "greatest_change col =
     (if adjacent_changes col = [] then None else Some (Max (set (adjacent_changes col))))"

definition positive :: "real option \<Rightarrow> bool" where
  "positive a = (case a of None \<Rightarrow> False | Some x \<Rightarrow> 0 < x)"

definition at_least :: "real option \<Rightarrow> real option \<Rightarrow> bool" where
  "at_least a b =
     (case b of None \<Rightarrow> True | Some y \<Rightarrow> (case a of None \<Rightarrow> False | Some x \<Rightarrow> y \<le> x))"

definition changed :: "(real \<Rightarrow> summary) \<Rightarrow> real option \<Rightarrow> summary" where
  "changed metric a = (case a of None \<Rightarrow> No_significant_changes | Some v \<Rightarrow> metric v)"

definition summarize :: "frame24 \<Rightarrow> datetime \<Rightarrow> summary" where
  "summarize df now =
     (let recent = sort_key (\<lambda>r. stamp (Time r))
                     (filter (\<lambda>r. stamp (minus_one_hour now) \<le> stamp (Time r)) df);
          t = greatest_change (map temperature recent);
          w = greatest_change (map wind_speed recent);
          h = greatest_change (map humidity recent)
      in if \<not> positive t \<and> \<not> positive w \<and> \<not> positive h then No_significant_changes
         else if at_least t w \<and> at_least t h then changed Temperature_changed t
         else if at_least w h then changed Wind_Speed_changed w
         else changed Humidity_changed h)"

section \<open>Notions for the snapshot files\<close>

text \<open>
  The fields of a \<^verbatim>\<open>datetime\<close> are in the ranges of the calendar; \<open>second_of\<close> is a time
  cut to the second, the resolution of the names of the raw and cleaned files.
\<close>

definition valid_datetime :: "datetime \<Rightarrow> bool" where
  "valid_datetime t =
     (1 \<le> year t \<and> year t \<le> 9999 \<and> 1 \<le> month t \<and> month t \<le> 12 \<and>
      1 \<le> day t \<and> day t \<le> days_in_month (year t) (month t) \<and>
      hour t < 24 \<and> minute t < 60 \<and> second t < 60 \<and> microsecond t < 1000000)"

definition valid_clock :: "clock \<Rightarrow> bool" where
  "valid_clock clk =
     (valid_datetime (now_today clk) \<and> valid_datetime (now_raw clk) \<and>
      valid_datetime (now_clean clk) \<and> valid_datetime (now_summary clk) \<and>
      valid_datetime (now_report clk))"

definition second_of :: "datetime \<Rightarrow> nat \<times> nat \<times> nat \<times> nat \<times> nat \<times> nat" where
  "second_of t = (year t, month t, day t, hour t, minute t, second t)"

text \<open>A run of the callback produces a result: the city is known and so is the metric.\<close>

definition accepted :: "query \<Rightarrow> bool" where
  "accepted q =
     (city q \<noteq> [] \<and> map_of CITIES (upper (city q)) \<noteq> None \<and>
      detailed_feature q \<in> set (''all'' # icon_map_keys))"

text \<open>The report table of a run, as the file content it is written as.\<close>

definition report_of :: "snapshot store \<times> (py_error + outcome) \<Rightarrow> snapshot option" where
  "report_of res =
     (case snd res of
        Inr (Updated b) \<Rightarrow> Some (Csv_report (forecast_table b))
      | Inr No_update \<Rightarrow> None
      | Inl e \<Rightarrow> None)"

text \<open>
  Two runs for London on the same day, at 9 and at 15 o'clock, the second on a feed with
  one more hour and on the files the first has left.
\<close>

definition morning_run :: "snapshot store \<times> (py_error + outcome)" where
  "morning_run =
     update_forecast london (clock_at 9) [obs 8 (Some 20) (Some 5) (Some 60) (Some 0)] Map.empty"

definition afternoon_run :: "snapshot store \<times> (py_error + outcome)" where
  "afternoon_run =
     update_forecast london (clock_at 15)
       [obs 8 (Some 20) (Some 5) (Some 60) (Some 0), obs 14 (Some 27) (Some 5) (Some 60) (Some 0)]
       (fst morning_run)"

section \<open>Properties of cleaning\<close>

lemma set_drop_duplicates_seen:
  "Time ` set (drop_duplicates_seen seen df) = Time ` set df - set seen"
  by (induction df arbitrary: seen) auto

lemma distinct_drop_duplicates_seen: "distinct (map Time (drop_duplicates_seen seen df))"
proof (induction df arbitrary: seen)
  case Nil
  then show ?case by simp
next
  case (Cons r rs)
  have "Time r \<notin> Time ` set (drop_duplicates_seen (Time r # seen) rs)"
    by (simp add: set_drop_duplicates_seen)
  with Cons show ?case by auto
qed

lemma subseq_drop_duplicates_seen: "subseq (drop_duplicates_seen seen df) df"
  by (induction df arbitrary: seen) auto

lemma drop_duplicates_seen_id:
  "distinct (map Time df) \<Longrightarrow> Time ` set df \<inter> set seen = {}
   \<Longrightarrow> drop_duplicates_seen seen df = df"
  by (induction df arbitrary: seen) auto


lemma map_Time_ffill_last: "map Time (ffill_last t w h p df) = map Time df"
  by (induction df arbitrary: t w h p) (simp_all add: Let_def)

lemma fill_cell_idem: "fill_cell a (fill_cell a b) = fill_cell a b"
  by (simp add: fill_cell_def split: option.splits)


lemma ffill_last_idem: "ffill_last t w h p (ffill_last t w h p df) = ffill_last t w h p df"
  by (induction df arbitrary: t w h p) (simp_all add: Let_def fill_cell_idem)



lemma map_Time_clean_data: "map Time (clean_data df) = map Time (drop_duplicates df)"
  by (simp add: clean_data_def ffill_def map_Time_ffill_last)

lemma distinct_clean_data: "distinct (map Time (clean_data df))"
  by (simp add: map_Time_clean_data drop_duplicates_def distinct_drop_duplicates_seen)

lemma subseq_times_clean_data: "subseq (map Time (clean_data df)) (map Time df)"
  unfolding map_Time_clean_data drop_duplicates_def
  by (rule subseq_map) (rule subseq_drop_duplicates_seen)

lemma sorted_subseq: "subseq xs ys \<Longrightarrow> sorted ys \<Longrightarrow> sorted xs"
proof (induction rule: list_emb.induct)
  case (list_emb_Nil ys)
  then show ?case by simp
next
  case (list_emb_Cons xs ys y)
  then show ?case by simp
next
  case (list_emb_Cons2 x y xs ys)
  have "set xs \<subseteq> set ys"
    using list_emb_Cons2.hyps(2) by (auto elim: list_emb_set)
  with list_emb_Cons2 show ?case by auto
qed

text \<open>
  C1, as stated: the output of \<open>clean_data\<close> is sorted by time whatever the order of the
  input.  \<open>clean_data\<close> has no sorting step, so the statement fails on a feed whose rows
  arrive in descending order.
\<close>

theorem clean_data_unsorted:
  "\<not> sorted_by_time (clean_data [obs 11 (Some 35) None None None, obs 10 (Some 20) None None None])"
  by (simp add: sorted_by_time_def clean_data_def ffill_def drop_duplicates_def obs_def
      at_hour_def Let_def fill_cell_def stamp_def)

text \<open>
  C1, amended: \<open>clean_data\<close> keeps the rows it retains in feed order (the times of the
  output are a subsequence of the times of the input), so the output is sorted by time
  whenever the input is.
\<close>

theorem clean_data_keeps_order:
  "subseq (map Time (clean_data df)) (map Time df) \<and>
   (sorted_by_time df \<longrightarrow> sorted_by_time (clean_data df))"
proof
  show s: "subseq (map Time (clean_data df)) (map Time df)" by (rule subseq_times_clean_data)
  have "subseq (map stamp (map Time (clean_data df))) (map stamp (map Time df))"
    using s by (rule subseq_map)
  then show "sorted_by_time df \<longrightarrow> sorted_by_time (clean_data df)"
    by (auto simp: sorted_by_time_def comp_def dest: sorted_subseq)
qed

theorem clean_data_keeps_order_witness:
  "sorted_by_time [obs 10 (Some 20) None None None, obs 10 (Some 99) None None None,
                   obs 11 None (Some 3) None None] \<and>
   sorted_by_time (clean_data [obs 10 (Some 20) None None None, obs 10 (Some 99) None None None,
                   obs 11 None (Some 3) None None])"
proof -
  have h: "sorted_by_time [obs 10 (Some 20) None None None, obs 10 (Some 99) None None None,
                   obs 11 None (Some 3) None None]"
    by (simp add: sorted_by_time_def obs_def at_hour_def stamp_def)
  with clean_data_keeps_order
    [of "[obs 10 (Some 20) None None None, obs 10 (Some 99) None None None,
          obs 11 None (Some 3) None None]"]
  show ?thesis by blast
qed



text \<open>
  C8: cleaning is idempotent, \<open>clean_data (clean_data S) = clean_data S\<close> for every raw
  frame \<open>S\<close>.
\<close>

theorem clean_data_idempotent: "clean_data (clean_data df) = clean_data df"
proof -
  have "drop_duplicates (clean_data df) = clean_data df"
    unfolding drop_duplicates_def
    by (rule drop_duplicates_seen_id) (simp_all add: distinct_clean_data)
  then have "clean_data (clean_data df) = ffill (clean_data df)"
    by (simp add: clean_data_def[of "clean_data df"])
  also have "\<dots> = clean_data df"
    by (simp add: clean_data_def ffill_def ffill_last_idem)
  finally show ?thesis .
qed

section \<open>Properties of windowing\<close>

lemma Time_add_temperature_F: "Time (add_temperature_F r) = Time r"
  by (simp add: add_temperature_F_def row.defs)

text \<open>
  C5: with \<^verbatim>\<open>alert_start_hour\<close> set to \<open>h\<close>, the windowed frame is exactly the rows of the
  cleaned frame on the target date whose hour is strictly greater than \<open>h\<close>, in their order
  and each with its Fahrenheit column.  So every row of the windowed frame has an hour above
  \<open>h\<close>, no row of hour \<open>h\<close> or below is in it, and every row of the target date with hour
  \<open>h + 1\<close> is in it: the hour is an exclusive lower bound.
\<close>

theorem window_hour_bound:
  "df_24h df_clean d (Some h) =
     map add_temperature_F
       (filter (\<lambda>r. date_of (Time r) = d \<and> h < int (hour (Time r))) df_clean) \<and>
   set (df_24h df_clean d (Some h)) =
     add_temperature_F ` {r \<in> set df_clean. date_of (Time r) = d \<and> h < int (hour (Time r))} \<and>
   (\<forall>w \<in> set (df_24h df_clean d (Some h)). date_of (Time w) = d \<and> h < int (hour (Time w))) \<and>
   (\<forall>r \<in> set df_clean. int (hour (Time r)) \<le> h
        \<longrightarrow> add_temperature_F r \<notin> set (df_24h df_clean d (Some h))) \<and>
   (\<forall>r \<in> set df_clean. date_of (Time r) = d \<and> int (hour (Time r)) = h + 1
        \<longrightarrow> add_temperature_F r \<in> set (df_24h df_clean d (Some h)))"
proof -
  have l: "df_24h df_clean d (Some h) =
     map add_temperature_F
       (filter (\<lambda>r. date_of (Time r) = d \<and> h < int (hour (Time r))) df_clean)"
    by (simp add: df_24h_def filter_map comp_def Time_add_temperature_F conj_commute)
  have x: "add_temperature_F r \<notin> set (df_24h df_clean d (Some h))"
    if "int (hour (Time r)) \<le> h" for r
  proof
    assume "add_temperature_F r \<in> set (df_24h df_clean d (Some h))"
    then obtain r' where "add_temperature_F r' = add_temperature_F r"
      and "h < int (hour (Time r'))"
      unfolding l by auto
    then have "h < int (hour (Time r))"
      using Time_add_temperature_F[of r] Time_add_temperature_F[of r'] by simp
    with that show False by simp
  qed
  show ?thesis
    using l x by (auto simp: Time_add_temperature_F)
qed

lemma window_sample:
  "df_24h [obs 10 (Some 20) w1 u1 p1, obs 11 (Some 35) w2 u2 p2] (2024, 5, 17) None =
     [add_temperature_F (obs 10 (Some 20) w1 u1 p1),
      add_temperature_F (obs 11 (Some 35) w2 u2 p2)]"
  by (simp add: df_24h_def obs_def at_hour_def date_of_def)

theorem window_hour_bound_witness:
  "df_24h [obs 3 (Some 17) (Some 9) (Some 70) (Some 0),
           obs 5 (Some 19) (Some 10) (Some 65) (Some 0),
           obs 6 (Some 20) (Some 11) (Some 62) (Some 0),
           (obs 8 (Some 21) (Some 11) (Some 61) (Some 0))\<lparr>Time := (at_hour 8)\<lparr>day := 18\<rparr>\<rparr>,
           obs 9 (Some 22) (Some 12) (Some 60) (Some 0)] (2024, 5, 17) (Some 5) =
     [add_temperature_F (obs 6 (Some 20) (Some 11) (Some 62) (Some 0)),
      add_temperature_F (obs 9 (Some 22) (Some 12) (Some 60) (Some 0))]"
  using window_hour_bound[of
      "[obs 3 (Some 17) (Some 9) (Some 70) (Some 0),
        obs 5 (Some 19) (Some 10) (Some 65) (Some 0),
        obs 6 (Some 20) (Some 11) (Some 62) (Some 0),
        (obs 8 (Some 21) (Some 11) (Some 61) (Some 0))\<lparr>Time := (at_hour 8)\<lparr>day := 18\<rparr>\<rparr>,
        obs 9 (Some 22) (Some 12) (Some 60) (Some 0)]"
      "(2024, 5, 17)" 5]
  by (simp add: obs_def at_hour_def date_of_def)

section \<open>Properties of the alerts\<close>

lemma alerts_blocks:
  "alerts df mt nt mw mh pt =
     (case mt of None \<Rightarrow> [] | Some m \<Rightarrow> map (\<lambda>r. Alert Max_temp (temperature r) (Time r))
                                    (filter (\<lambda>r. gt_cell (temperature r) m) df)) @
     (case nt of None \<Rightarrow> [] | Some m \<Rightarrow> map (\<lambda>r. Alert Min_temp (temperature r) (Time r))
                                    (filter (\<lambda>r. lt_cell (temperature r) m) df)) @
     (case mw of None \<Rightarrow> [] | Some m \<Rightarrow> map (\<lambda>r. Alert Max_wind (wind_speed r) (Time r))
                                    (filter (\<lambda>r. gt_cell (wind_speed r) m) df)) @
     (case mh of None \<Rightarrow> [] | Some m \<Rightarrow> map (\<lambda>r. Alert Min_humidity (humidity r) (Time r))
                                    (filter (\<lambda>r. lt_cell (humidity r) m) df)) @
     (case pt of None \<Rightarrow> [] | Some m \<Rightarrow> map (\<lambda>r. Alert Precip (precipitation r) (Time r))
                                    (filter (\<lambda>r. gt_cell (precipitation r) m) df))"
  by (simp add: alerts_def Let_def split: option.splits)

lemma of_kind_append: "of_kind k (xs @ ys) = of_kind k xs @ of_kind k ys"
  by (simp add: of_kind_def)

lemma of_kind_block:
  "of_kind k (map (\<lambda>r. Alert k' (f r) (Time r)) xs) =
     (if k = k' then map (\<lambda>r. Alert k' (f r) (Time r)) xs else [])"
  by (induction xs) (auto simp: of_kind_def)

lemma of_kind_case:
  "of_kind k (case x of None \<Rightarrow> [] | Some m \<Rightarrow> g m) = (case x of None \<Rightarrow> [] | Some m \<Rightarrow> of_kind k (g m))"
  by (simp add: of_kind_def split: option.splits)

lemmas of_kind_alerts = alerts_blocks of_kind_append of_kind_case of_kind_block

lemma of_kind_Max_temp:
  "of_kind Max_temp (alerts df mt nt mw mh pt) =
     (case mt of None \<Rightarrow> [] | Some m \<Rightarrow> map (\<lambda>r. Alert Max_temp (temperature r) (Time r))
                                    (filter (\<lambda>r. gt_cell (temperature r) m) df))"
  by (simp add: of_kind_alerts split: option.splits)

lemma of_kind_Min_temp:
  "of_kind Min_temp (alerts df mt nt mw mh pt) =
     (case nt of None \<Rightarrow> [] | Some m \<Rightarrow> map (\<lambda>r. Alert Min_temp (temperature r) (Time r))
                                    (filter (\<lambda>r. lt_cell (temperature r) m) df))"
  by (simp add: of_kind_alerts split: option.splits)

lemma of_kind_Max_wind:
  "of_kind Max_wind (alerts df mt nt mw mh pt) =
     (case mw of None \<Rightarrow> [] | Some m \<Rightarrow> map (\<lambda>r. Alert Max_wind (wind_speed r) (Time r))
                                    (filter (\<lambda>r. gt_cell (wind_speed r) m) df))"
  by (simp add: of_kind_alerts split: option.splits)

lemma of_kind_Min_humidity:
  "of_kind Min_humidity (alerts df mt nt mw mh pt) =
     (case mh of None \<Rightarrow> [] | Some m \<Rightarrow> map (\<lambda>r. Alert Min_humidity (humidity r) (Time r))
                                    (filter (\<lambda>r. lt_cell (humidity r) m) df))"
  by (simp add: of_kind_alerts split: option.splits)

lemma of_kind_Precip:
  "of_kind Precip (alerts df mt nt mw mh pt) =
     (case pt of None \<Rightarrow> [] | Some m \<Rightarrow> map (\<lambda>r. Alert Precip (precipitation r) (Time r))
                                    (filter (\<lambda>r. gt_cell (precipitation r) m) df))"
  by (simp add: of_kind_alerts split: option.splits)

lemmas of_kind_simps =
  of_kind_Max_temp of_kind_Min_temp of_kind_Max_wind of_kind_Min_humidity of_kind_Precip

lemma subseq_block:
  "subseq (map alert_time (case x of None \<Rightarrow> [] | Some m \<Rightarrow> map (\<lambda>r. Alert k (f r) (Time r)) (filter (P m) df)))
          (map Time df)"
proof (cases x)
  case None
  then show ?thesis by simp
next
  case (Some m)
  have "subseq (map Time (filter (P m) df)) (map Time df)"
    by (rule subseq_map) (rule subseq_filter_left)
  with Some show ?thesis by (simp add: comp_def)
qed

lemma length_filter_mono:
  "(\<And>x. P x \<Longrightarrow> Q x) \<Longrightarrow> length (filter P xs) \<le> length (filter Q xs)"
  by (induction xs) auto

lemma alerts_Nil: "alerts [] mt nt mw mh pt = []"
  by (simp add: alerts_blocks split: option.splits)

lemma alerts_sample:
  "alerts [add_temperature_F (obs 10 (Some 20) w1 u1 p1),
           add_temperature_F (obs 11 (Some 35) w2 u2 p2)] (Some 30) (Some 25) None None None =
     [Alert Max_temp (Some 35) (at_hour 11), Alert Min_temp (Some 20) (at_hour 10)]"
  by (simp add: alerts_def Let_def gt_cell_def lt_cell_def add_temperature_F_def obs_def row.defs)

text \<open>
  C4: the alert list is grouped by threshold: it is the alerts for \<^verbatim>\<open>max_temp\<close>, then those
  for \<^verbatim>\<open>min_temp\<close>, \<^verbatim>\<open>max_wind\<close>, \<^verbatim>\<open>min_humidity\<close> and the precipitation threshold, and the
  alerts of each group stand in the order of the rows of the frame.  It is not one merge
  in time order: in the sample the alert of 11 o'clock stands before the one of 10 o'clock.
\<close>

theorem alerts_grouped:
  "(let A = alerts df mt nt mw mh pt in
      A = of_kind Max_temp A @ of_kind Min_temp A @ of_kind Max_wind A @
          of_kind Min_humidity A @ of_kind Precip A \<and>
      (\<forall>k. subseq (map alert_time (of_kind k A)) (map Time df)))"
proof -
  have g: "alerts df mt nt mw mh pt =
      of_kind Max_temp (alerts df mt nt mw mh pt) @ of_kind Min_temp (alerts df mt nt mw mh pt) @
      of_kind Max_wind (alerts df mt nt mw mh pt) @ of_kind Min_humidity (alerts df mt nt mw mh pt) @
      of_kind Precip (alerts df mt nt mw mh pt)"
    unfolding of_kind_simps by (rule alerts_blocks)
  have s: "subseq (map alert_time (of_kind k (alerts df mt nt mw mh pt))) (map Time df)" for k
    by (cases k) (simp_all only: of_kind_simps subseq_block)
  from g s show ?thesis unfolding Let_def by blast
qed

theorem alerts_grouped_witness:
  "alerts [add_temperature_F (obs 10 (Some 20) None None None),
           add_temperature_F (obs 11 (Some 35) None None None)] (Some 30) (Some 25) None None None =
     [Alert Max_temp (Some 35) (at_hour 11), Alert Min_temp (Some 20) (at_hour 10)] \<and>
   (let A = alerts [add_temperature_F (obs 10 (Some 20) None None None),
                    add_temperature_F (obs 11 (Some 35) None None None)]
                   (Some 30) (Some 25) None None None in
      A = of_kind Max_temp A @ of_kind Min_temp A @ of_kind Max_wind A @
          of_kind Min_humidity A @ of_kind Precip A \<and>
      (\<forall>k. subseq (map alert_time (of_kind k A))
             (map Time [add_temperature_F (obs 10 (Some 20) None None None),
                        add_temperature_F (obs 11 (Some 35) None None None)])))"
proof (rule conjI)
  show "alerts [add_temperature_F (obs 10 (Some 20) None None None),
           add_temperature_F (obs 11 (Some 35) None None None)] (Some 30) (Some 25) None None None =
     [Alert Max_temp (Some 35) (at_hour 11), Alert Min_temp (Some 20) (at_hour 10)]"
    by (rule alerts_sample)
qed (rule alerts_grouped)

text \<open>
  C9: raising \<^verbatim>\<open>max_temp\<close> never increases the number of \<^verbatim>\<open>max_temp\<close> alerts, and lowering
  \<^verbatim>\<open>min_humidity\<close> never increases the number of \<^verbatim>\<open>min_humidity\<close> alerts, on every
  windowed frame and whatever the other thresholds are.
\<close>

theorem threshold_monotone:
  "(ta \<le> tb \<longrightarrow>
      length (of_kind Max_temp (alerts df (Some tb) nt mw mh pt))
        \<le> length (of_kind Max_temp (alerts df (Some ta) nt mw mh pt))) \<and>
   (hb \<le> ha \<longrightarrow>
      length (of_kind Min_humidity (alerts df mt nt mw (Some hb) pt))
        \<le> length (of_kind Min_humidity (alerts df mt nt mw (Some ha) pt)))"
proof (intro conjI impI)
  assume "ta \<le> tb"
  then have "gt_cell v tb \<Longrightarrow> gt_cell v ta" for v
    by (auto simp: gt_cell_def split: option.splits)
  then show "length (of_kind Max_temp (alerts df (Some tb) nt mw mh pt))
        \<le> length (of_kind Max_temp (alerts df (Some ta) nt mw mh pt))"
    by (simp add: of_kind_Max_temp length_filter_mono)
next
  assume "hb \<le> ha"
  then have "lt_cell v hb \<Longrightarrow> lt_cell v ha" for v
    by (auto simp: lt_cell_def split: option.splits)
  then show "length (of_kind Min_humidity (alerts df mt nt mw (Some hb) pt))
        \<le> length (of_kind Min_humidity (alerts df mt nt mw (Some ha) pt))"
    by (simp add: of_kind_Min_humidity length_filter_mono)
qed

theorem threshold_monotone_witness:
  "(30::real) \<le> 40 \<and>
   length (of_kind Max_temp (alerts [add_temperature_F (obs 10 (Some 20) None (Some 60) None),
           add_temperature_F (obs 11 (Some 35) None (Some 40) None)] (Some 40) None None None None))
     \<le> length (of_kind Max_temp (alerts [add_temperature_F (obs 10 (Some 20) None (Some 60) None),
           add_temperature_F (obs 11 (Some 35) None (Some 40) None)] (Some 30) None None None None)) \<and>
   (50::real) \<le> 70 \<and>
   length (of_kind Min_humidity (alerts [add_temperature_F (obs 10 (Some 20) None (Some 60) None),
           add_temperature_F (obs 11 (Some 35) None (Some 40) None)] None None None (Some 50) None))
     \<le> length (of_kind Min_humidity (alerts [add_temperature_F (obs 10 (Some 20) None (Some 60) None),
           add_temperature_F (obs 11 (Some 35) None (Some 40) None)] None None None (Some 70) None))"
  using threshold_monotone[where ta = 30 and tb = 40 and hb = 50 and ha = 70
      and df = "[add_temperature_F (obs 10 (Some 20) None (Some 60) None),
           add_temperature_F (obs 11 (Some 35) None (Some 40) None)]"
      and nt = None and mw = None and mh = None and pt = None and mt = None]
  by simp

section \<open>Properties of the summary\<close>

lemma summary_text_Nil: "summary_text [] now = No_significant_changes"
  by (simp add: summary_text_def df_last_hour_def max_change_def abs_col_def Let_def)

lemma max_skipna_diff_above:
  "max_skipna (abs_col (diff_above a xs)) =
     (if changes_from a xs = [] then None else Some (Max (set (changes_from a xs))))"
proof (induction xs arbitrary: a)
  case Nil
  then show ?case by (simp add: abs_col_def)
next
  case (Cons x xs)
  have ih: "max_skipna (map (map_option abs) (diff_above x xs)) =
     (if changes_from x xs = [] then None else Some (Max (set (changes_from x xs))))"
    using Cons[of x] by (simp add: abs_col_def)
  show ?case
  proof (cases a)
    case None
    with ih show ?thesis by (simp add: abs_col_def sub_cell_def split: option.splits)
  next
    case (Some u)
    show ?thesis
    proof (cases x)
      case None
      with ih \<open>a = Some u\<close> show ?thesis by (simp add: abs_col_def sub_cell_def)
    next
      case (Some v)
      with ih \<open>a = Some u\<close> show ?thesis
        by (simp add: abs_col_def sub_cell_def)
    qed
  qed
qed

lemma max_skipna_diff: "max_skipna (abs_col (diff xs)) = greatest_change xs"
proof (cases xs)
  case Nil
  then show ?thesis by (simp add: abs_col_def greatest_change_def)
next
  case (Cons x ys)
  have "max_skipna (abs_col (diff (x # ys))) = max_skipna (abs_col (diff_above x ys))"
    by (simp add: abs_col_def)
  with Cons show ?thesis by (simp add: max_skipna_diff_above greatest_change_def)
qed

lemma pick_metric:
  "(let mc = [(''temp_diff'', t), (''wind_diff'', w), (''humidity_diff'', h)];
        biggest_change_metric = idxmax mc;
        biggest_change_value = max_skipna (map snd mc)
    in case biggest_change_value of
         None \<Rightarrow> No_significant_changes
       | Some v \<Rightarrow>
           if v \<noteq> 0 \<and> v > 0 then
             (if biggest_change_metric = Some ''temp_diff'' then Temperature_changed v
              else if biggest_change_metric = Some ''wind_diff'' then Wind_Speed_changed v
              else if biggest_change_metric = Some ''humidity_diff'' then Humidity_changed v
              else No_significant_changes)
           else No_significant_changes) =
   (if \<not> positive t \<and> \<not> positive w \<and> \<not> positive h then No_significant_changes
    else if at_least t w \<and> at_least t h then changed Temperature_changed t
    else if at_least w h then changed Wind_Speed_changed w
    else changed Humidity_changed h)"
  by (cases t; cases w; cases h)
     (auto simp: idxmax_def positive_def at_least_def changed_def Let_def max_def)

lemma recent_sample:
  "df_last_hour [add_temperature_F (obs 10 (Some 18) (Some 5) (Some 60) None),
                 add_temperature_F (obs 11 (Some 25) (Some 5) (Some 60) None)] (at_hour 11) =
     [add_temperature_F (obs 10 (Some 18) (Some 5) (Some 60) None),
      add_temperature_F (obs 11 (Some 25) (Some 5) (Some 60) None)]"
  by (simp add: df_last_hour_def minus_one_hour_def Let_def at_hour_def obs_def stamp_def
      add_temperature_F_def row.defs)

lemma summary_sample:
  "summary_text [add_temperature_F (obs 10 (Some 18) (Some 5) (Some 60) None),
                 add_temperature_F (obs 11 (Some 25) (Some 5) (Some 60) None)] (at_hour 11) =
     Temperature_changed 7"
  unfolding summary_text_def recent_sample
  by (simp add: max_change_def abs_col_def sub_cell_def idxmax_def Let_def obs_def
      add_temperature_F_def row.defs)

text \<open>
  C6: the summary computed by the callback is the summary of the specification: among
  the rows from one hour before \<open>now\<close> on, in time order, it selects the metric with the
  greatest maximal absolute difference between adjacent rows, temperature before wind
  speed before humidity on a tie, and it is "no significant changes" when no metric has a
  positive one (it is zero, or no two adjacent rows both have a value).
\<close>

theorem summary_text_refines: "summary_text df now = summarize df now"
  unfolding summary_text_def summarize_def df_last_hour_def max_change_def
  using pick_metric by (simp add: Let_def max_skipna_diff)

theorem summary_text_refines_witness:
  "summarize [add_temperature_F (obs 10 (Some 18) (Some 5) (Some 60) None),
              add_temperature_F (obs 11 (Some 25) (Some 5) (Some 60) None)] (at_hour 11) =
     Temperature_changed 7"
  using summary_text_refines[of "[add_temperature_F (obs 10 (Some 18) (Some 5) (Some 60) None),
      add_temperature_F (obs 11 (Some 25) (Some 5) (Some 60) None)]" "at_hour 11"]
  by (simp add: summary_sample)

section \<open>Properties of the callback\<close>

lemma upper_London: "upper ''London'' = ''LONDON''"
  by (simp add: upper_def upper_char_def Let_def char_of_def bit_0)

lemma CITIES_LONDON: "map_of CITIES ''LONDON'' = Some (51.5072, - 0.1276)"
  by (simp add: CITIES_def)

lemma no_unknown_feature:
  "feat \<in> set (''all'' # icon_map_keys) \<Longrightarrow>
   find (\<lambda>f. f \<notin> set icon_map_keys) (features feat) = None"
  by (auto simp: features_def find_None_iff)

lemma update_forecast_updated:
  assumes "city q \<noteq> []" and "map_of CITIES (upper (city q)) = Some ll"
    and "detailed_feature q \<in> set (''all'' # icon_map_keys)"
  shows "update_forecast q clk df fs =
     (save_daily_report (upper (city q)) (now_report clk)
        (Csv_report (df_table (windowed q clk df) (temp_unit q)))
        (save_clean_data (upper (city q)) (now_clean clk) (Csv_frame (clean_data df))
          (save_raw_data (upper (city q)) (now_raw clk) (Csv_frame df) fs)),
      Inr (Updated
        \<lparr>alert_events = alerts (windowed q clk df) (max_temp q) (min_temp q) (max_wind q)
                          (min_humidity q) (precip_threshold q),
         alert_displayed = (alerts (windowed q clk df) (max_temp q) (min_temp q) (max_wind q)
                          (min_humidity q) (precip_threshold q) \<noteq> []),
         summary_widget = summary_text (windowed q clk df) (now_summary clk),
         forecast_table = df_table (windowed q clk df) (temp_unit q)\<rparr>))"
  using assms(1,2) no_unknown_feature[OF assms(3)]
  by (simp add: update_forecast_def Let_def windowed_def)

lemma update_forecast_no_city:
  "city q = [] \<Longrightarrow> update_forecast q clk df fs = (fs, Inr No_update)"
  by (simp add: update_forecast_def)

lemma update_forecast_unknown_city:
  "city q \<noteq> [] \<Longrightarrow> map_of CITIES (upper (city q)) = None \<Longrightarrow>
   update_forecast q clk df fs = (fs, Inl (KeyError (upper (city q))))"
  by (simp add: update_forecast_def Let_def)

lemma update_forecast_accepted:
  assumes "accepted q"
  shows "update_forecast q clk df fs =
     (save_daily_report (upper (city q)) (now_report clk)
        (Csv_report (df_table (windowed q clk df) (temp_unit q)))
        (save_clean_data (upper (city q)) (now_clean clk) (Csv_frame (clean_data df))
          (save_raw_data (upper (city q)) (now_raw clk) (Csv_frame df) fs)),
      Inr (Updated
        \<lparr>alert_events = alerts (windowed q clk df) (max_temp q) (min_temp q) (max_wind q)
                          (min_humidity q) (precip_threshold q),
         alert_displayed = (alerts (windowed q clk df) (max_temp q) (min_temp q) (max_wind q)
                          (min_humidity q) (precip_threshold q) \<noteq> []),
         summary_widget = summary_text (windowed q clk df) (now_summary clk),
         forecast_table = df_table (windowed q clk df) (temp_unit q)\<rparr>))"
proof -
  from assms obtain ll where "city q \<noteq> []" "map_of CITIES (upper (city q)) = Some ll"
    "detailed_feature q \<in> set (''all'' # icon_map_keys)"
    unfolding accepted_def by blast
  then show ?thesis by (rule update_forecast_updated)
qed

lemma alerts_of_update_forecast:
  "alerts_of (update_forecast q clk df fs) =
     (if city q = [] \<or> map_of CITIES (upper (city q)) = None \<or>
         find (\<lambda>f. f \<notin> set icon_map_keys) (features (detailed_feature q)) \<noteq> None
      then None
      else Some (alerts (windowed q clk df) (max_temp q) (min_temp q) (max_wind q)
                   (min_humidity q) (precip_threshold q)))"
  by (auto simp: update_forecast_def alerts_of_def Let_def windowed_def split: option.splits)

lemma alerts_of_accepted:
  "accepted q \<Longrightarrow> alerts_of (update_forecast q clk df fs) =
     Some (alerts (windowed q clk df) (max_temp q) (min_temp q) (max_wind q)
                  (min_humidity q) (precip_threshold q))"
  by (simp add: update_forecast_accepted alerts_of_def)

lemma accepted_london_unit: "accepted (london\<lparr>temp_unit := u\<rparr>)"
  by (simp add: accepted_def london_def upper_London CITIES_LONDON)

lemma accepted_london_hour: "accepted (london\<lparr>alert_start_hour := h\<rparr>)"
  by (simp add: accepted_def london_def upper_London CITIES_LONDON)

lemma clean_sample:
  "clean_data [obs 10 (Some 20) (Some 12) (Some 60) (Some 0), obs 11 (Some 35) (Some 14) (Some 55) (Some 0)] =
     [obs 10 (Some 20) (Some 12) (Some 60) (Some 0), obs 11 (Some 35) (Some 14) (Some 55) (Some 0)]"
  by (simp add: clean_data_def ffill_def drop_duplicates_def obs_def at_hour_def Let_def fill_cell_def)

lemma windowed_sample:
  "windowed (london\<lparr>temp_unit := u\<rparr>) (clock_at 12)
     [obs 10 (Some 20) (Some 12) (Some 60) (Some 0), obs 11 (Some 35) (Some 14) (Some 55) (Some 0)] =
     [add_temperature_F (obs 10 (Some 20) (Some 12) (Some 60) (Some 0)),
      add_temperature_F (obs 11 (Some 35) (Some 14) (Some 55) (Some 0))]"
  by (simp add: windowed_def clean_sample london_def clock_at_def window_sample)
     (simp add: date_of_def at_hour_def window_sample)

lemma windowed_late:
  "windowed (london\<lparr>alert_start_hour := Some 23\<rparr>) (clock_at 12)
     [obs 10 (Some 20) (Some 12) (Some 60) (Some 0), obs 11 (Some 35) (Some 14) (Some 55) (Some 0)] = []"
  by (simp add: windowed_def clean_sample london_def clock_at_def)
     (simp add: df_24h_def obs_def at_hour_def date_of_def Time_add_temperature_F)

text \<open>
  C10: the alerts compare the Celsius column with \<^verbatim>\<open>max_temp\<close> and \<^verbatim>\<open>min_temp\<close> whatever the
  selected unit is: two runs of the callback that differ only in \<^verbatim>\<open>temp_unit\<close> give the same
  alert list.  In the sample, with the unit F, 20 degrees Celsius (68 Fahrenheit) is still
  reported as below the minimum of 25.
\<close>

theorem alerts_ignore_temp_unit:
  "alerts_of (update_forecast (q\<lparr>temp_unit := u1\<rparr>) clk df fs) =
   alerts_of (update_forecast (q\<lparr>temp_unit := u2\<rparr>) clk df fs)"
  by (simp add: alerts_of_update_forecast windowed_def)

theorem alerts_ignore_temp_unit_witness:
  "alerts_of (update_forecast (london\<lparr>temp_unit := ''C''\<rparr>) (clock_at 12)
      [obs 10 (Some 20) (Some 12) (Some 60) (Some 0), obs 11 (Some 35) (Some 14) (Some 55) (Some 0)] Map.empty) =
   alerts_of (update_forecast (london\<lparr>temp_unit := ''F''\<rparr>) (clock_at 12)
      [obs 10 (Some 20) (Some 12) (Some 60) (Some 0), obs 11 (Some 35) (Some 14) (Some 55) (Some 0)] Map.empty) \<and>
   alerts_of (update_forecast (london\<lparr>temp_unit := ''F''\<rparr>) (clock_at 12)
      [obs 10 (Some 20) (Some 12) (Some 60) (Some 0), obs 11 (Some 35) (Some 14) (Some 55) (Some 0)] Map.empty) =
     Some [Alert Max_temp (Some 35) (at_hour 11), Alert Min_temp (Some 20) (at_hour 10)]"
proof (rule conjI)
  show "alerts_of (update_forecast (london\<lparr>temp_unit := ''C''\<rparr>) (clock_at 12)
      [obs 10 (Some 20) (Some 12) (Some 60) (Some 0), obs 11 (Some 35) (Some 14) (Some 55) (Some 0)] Map.empty) =
   alerts_of (update_forecast (london\<lparr>temp_unit := ''F''\<rparr>) (clock_at 12)
      [obs 10 (Some 20) (Some 12) (Some 60) (Some 0), obs 11 (Some 35) (Some 14) (Some 55) (Some 0)] Map.empty)"
    by (rule alerts_ignore_temp_unit)
  have "alerts (windowed (london\<lparr>temp_unit := ''F''\<rparr>) (clock_at 12)
      [obs 10 (Some 20) (Some 12) (Some 60) (Some 0), obs 11 (Some 35) (Some 14) (Some 55) (Some 0)])
      (max_temp london) (min_temp london) (max_wind london) (min_humidity london)
      (precip_threshold london) =
     [Alert Max_temp (Some 35) (at_hour 11), Alert Min_temp (Some 20) (at_hour 10)]"
    by (simp add: windowed_sample) (simp add: london_def alerts_sample)
  with alerts_of_accepted[OF accepted_london_unit[of "''F''"], of "clock_at 12"
      "[obs 10 (Some 20) (Some 12) (Some 60) (Some 0), obs 11 (Some 35) (Some 14) (Some 55) (Some 0)]" Map.empty]
  show "alerts_of (update_forecast (london\<lparr>temp_unit := ''F''\<rparr>) (clock_at 12)
      [obs 10 (Some 20) (Some 12) (Some 60) (Some 0), obs 11 (Some 35) (Some 14) (Some 55) (Some 0)] Map.empty) =
     Some [Alert Max_temp (Some 35) (at_hour 11), Alert Min_temp (Some 20) (at_hour 10)]"
    by simp
qed

text \<open>
  C3: when the windowed frame is empty, a run of the callback with a known city and a
  known metric does not fail: it returns a result whose alert list is empty (no pop-up),
  whose summary is "no significant changes" and whose table has no rows, and it has
  written that table to the report file.
\<close>

theorem empty_window_no_failure:
  assumes "accepted q" and "windowed q clk df = []"
  shows "\<exists>fs' b. update_forecast q clk df fs = (fs', Inr (Updated b)) \<and>
           alert_events b = [] \<and> \<not> alert_displayed b \<and>
           summary_widget b = No_significant_changes \<and>
           body (forecast_table b) = [] \<and>
           fs' (report_path (upper (city q)) (now_report clk)) = Some (Csv_report (forecast_table b))"
  using update_forecast_accepted[OF assms(1), of clk df fs] assms(2)
  by (simp add: alerts_Nil summary_text_Nil df_table_def save_daily_report_def)

theorem empty_window_no_failure_witness:
  "accepted (london\<lparr>alert_start_hour := Some 23\<rparr>) \<and>
   windowed (london\<lparr>alert_start_hour := Some 23\<rparr>) (clock_at 12)
     [obs 10 (Some 20) (Some 12) (Some 60) (Some 0), obs 11 (Some 35) (Some 14) (Some 55) (Some 0)] = [] \<and>
   (\<exists>fs' b. update_forecast (london\<lparr>alert_start_hour := Some 23\<rparr>) (clock_at 12)
               [obs 10 (Some 20) (Some 12) (Some 60) (Some 0), obs 11 (Some 35) (Some 14) (Some 55) (Some 0)] Map.empty
             = (fs', Inr (Updated b)) \<and>
           alert_events b = [] \<and> \<not> alert_displayed b \<and>
           summary_widget b = No_significant_changes \<and>
           body (forecast_table b) = [] \<and>
           fs' (report_path (upper (city (london\<lparr>alert_start_hour := Some 23\<rparr>)))
                  (now_report (clock_at 12))) = Some (Csv_report (forecast_table b)))"
  using empty_window_no_failure[OF accepted_london_hour windowed_late, of Map.empty]
    accepted_london_hour[of "Some 23"] windowed_late
  by blast

section \<open>Properties of the snapshot files\<close>

lemma of_char_digit: "d < 10 \<Longrightarrow> (of_char (digit d) :: nat) = 48 + d"
  by (simp add: digit_def)

lemma digit_inj: "a < 10 \<Longrightarrow> b < 10 \<Longrightarrow> digit a = digit b \<Longrightarrow> a = b"
proof -
  assume a: "a < 10" and b: "b < 10" and e: "digit a = digit b"
  from e have "(of_char (digit a) :: nat) = of_char (digit b)" by simp
  with a b show "a = b" by (simp add: of_char_digit)
qed

lemma two_digits_eq:
  fixes n m :: nat
  assumes "n < 100" "m < 100" "n div 10 mod 10 = m div 10 mod 10" "n mod 10 = m mod 10"
  shows "n = m"
proof -
  from assms(1,2) have "n div 10 < 10" "m div 10 < 10" by simp_all
  with assms(3) have "n div 10 = m div 10" by simp
  then have "10 * (n div 10) + n mod 10 = 10 * (m div 10) + m mod 10" using assms(4) by simp
  then show ?thesis by simp
qed

lemma dec2_inj: "n < 100 \<Longrightarrow> m < 100 \<Longrightarrow> dec2 n = dec2 m \<Longrightarrow> n = m"
proof -
  assume n: "n < 100" and m: "m < 100" and e: "dec2 n = dec2 m"
  from e have d: "digit (n div 10 mod 10) = digit (m div 10 mod 10)" "digit (n mod 10) = digit (m mod 10)"
    by (simp_all add: dec2_def)
  have "n div 10 mod 10 = m div 10 mod 10"
    by (rule digit_inj[OF _ _ d(1)]) simp_all
  moreover have "n mod 10 = m mod 10"
    by (rule digit_inj[OF _ _ d(2)]) simp_all
  ultimately show "n = m" using n m by (rule two_digits_eq[rotated 2])
qed

lemma length_dec2: "length (dec2 n) = 2"
  by (simp add: dec2_def)

lemma length_dec4: "length (dec4 n) = 4"
  by (simp add: dec4_def length_dec2)

lemma dec4_inj: "n < 10000 \<Longrightarrow> m < 10000 \<Longrightarrow> dec4 n = dec4 m \<Longrightarrow> n = m"
proof -
  assume n: "n < 10000" and m: "m < 10000" and e: "dec4 n = dec4 m"
  from e have "dec2 (n div 100) = dec2 (m div 100)" "dec2 (n mod 100) = dec2 (m mod 100)"
    by (simp_all add: dec4_def length_dec2)
  moreover from n m have "n div 100 < 100" "m div 100 < 100" by simp_all
  ultimately have "n div 100 = m div 100" "n mod 100 = m mod 100"
    by (auto intro: dec2_inj)
  then have "100 * (n div 100) + n mod 100 = 100 * (m div 100) + m mod 100" by simp
  then show "n = m" by simp
qed

lemma days_in_month_le: "days_in_month y m \<le> 31"
  by (simp add: days_in_month_def)

lemma valid_datetime_bounds:
  assumes "valid_datetime t"
  shows "year t < 10000" "month t < 100" "day t < 100" "hour t < 100" "minute t < 100" "second t < 100"
  using assms days_in_month_le[of "year t" "month t"] by (auto simp: valid_datetime_def)

lemma length_strftime_Ymd: "length (strftime_Ymd t) = 8"
  by (simp add: strftime_Ymd_def length_dec2 length_dec4)

lemma length_strftime_Ymd_HMS: "length (strftime_Ymd_HMS t) = 15"
  by (simp add: strftime_Ymd_HMS_def length_dec2 length_dec4)

lemma strftime_Ymd_eq_iff:
  assumes "valid_datetime s" and "valid_datetime t"
  shows "strftime_Ymd s = strftime_Ymd t \<longleftrightarrow> date_of s = date_of t"
proof
  assume "strftime_Ymd s = strftime_Ymd t"
  then have "dec4 (year s) = dec4 (year t)" "dec2 (month s) = dec2 (month t)"
    "dec2 (day s) = dec2 (day t)"
    by (simp_all add: strftime_Ymd_def length_dec2 length_dec4)
  with valid_datetime_bounds[OF assms(1)] valid_datetime_bounds[OF assms(2)]
  show "date_of s = date_of t"
    by (auto simp: date_of_def intro: dec4_inj dec2_inj)
next
  assume "date_of s = date_of t"
  then show "strftime_Ymd s = strftime_Ymd t" by (simp add: date_of_def strftime_Ymd_def)
qed

lemma strftime_Ymd_HMS_eq_iff:
  assumes "valid_datetime s" and "valid_datetime t"
  shows "strftime_Ymd_HMS s = strftime_Ymd_HMS t \<longleftrightarrow> second_of s = second_of t"
proof
  assume "strftime_Ymd_HMS s = strftime_Ymd_HMS t"
  then have "dec4 (year s) = dec4 (year t)" "dec2 (month s) = dec2 (month t)"
    "dec2 (day s) = dec2 (day t)" "dec2 (hour s) = dec2 (hour t)"
    "dec2 (minute s) = dec2 (minute t)" "dec2 (second s) = dec2 (second t)"
    by (simp_all add: strftime_Ymd_HMS_def length_dec2 length_dec4)
  with valid_datetime_bounds[OF assms(1)] valid_datetime_bounds[OF assms(2)]
  show "second_of s = second_of t"
    by (auto simp: second_of_def intro: dec4_inj dec2_inj)
next
  assume "second_of s = second_of t"
  then show "strftime_Ymd_HMS s = strftime_Ymd_HMS t"
    by (simp add: second_of_def strftime_Ymd_HMS_def)
qed

lemma city_key_not_absolute:
  "map_of CITIES c = Some ll \<Longrightarrow> \<exists>x xs. c = x # xs \<and> x \<noteq> CHR ''/''"
  by (auto simp: CITIES_def split: if_splits)

lemma path_join_relative:
  "d \<noteq> [] \<Longrightarrow> last d \<noteq> CHR ''/'' \<Longrightarrow> x \<noteq> CHR ''/'' \<Longrightarrow>
   path_join d ((x # xs) @ rest) = d @ ''/'' @ (x # xs) @ rest"
  by (simp add: path_join_def)

lemma report_path_key:
  "map_of CITIES c = Some ll \<Longrightarrow>
   report_path c t = ''weather_reports/'' @ c @ ''_hourly_report_'' @ strftime_Ymd t @ ''.csv''"
  by (drule city_key_not_absolute) (auto simp: report_path_def REPORT_DIR_def path_join_def)

lemma raw_path_key:
  "map_of CITIES c = Some ll \<Longrightarrow>
   raw_path c t = ''raw_weather_data/'' @ c @ ''_raw_'' @ strftime_Ymd_HMS t @ ''.csv''"
  by (drule city_key_not_absolute) (auto simp: raw_path_def RAW_DATA_DIR_def path_join_def)

lemma clean_path_key:
  "map_of CITIES c = Some ll \<Longrightarrow>
   clean_path c t = ''cleaned_weather_data/'' @ c @ ''_cleaned_'' @ strftime_Ymd_HMS t @ ''.csv''"
  by (drule city_key_not_absolute) (auto simp: clean_path_def CLEAN_DATA_DIR_def path_join_def)

lemma name_eq_iff:
  "length s = length t \<Longrightarrow> c @ mid @ s @ ext = c' @ mid @ t @ ext \<longleftrightarrow> c = c' \<and> s = t"
proof -
  assume l: "length s = length t"
  then have "length (mid @ s @ ext) = length (mid @ t @ ext)" by simp
  then have "c @ (mid @ s @ ext) = c' @ (mid @ t @ ext) \<longleftrightarrow> c = c' \<and> mid @ s @ ext = mid @ t @ ext"
    by (rule append_eq_append_conv[OF disjI2])
  then show ?thesis by simp
qed

lemma report_path_eq_iff:
  assumes "map_of CITIES c = Some ll" "map_of CITIES c' = Some ll'"
    and "valid_datetime s" "valid_datetime t"
  shows "report_path c s = report_path c' t \<longleftrightarrow> c = c' \<and> date_of s = date_of t"
  using name_eq_iff[of "strftime_Ymd s" "strftime_Ymd t" c "''_hourly_report_''" "''.csv''" c']
  by (simp add: report_path_key[OF assms(1)] report_path_key[OF assms(2)] length_strftime_Ymd
      strftime_Ymd_eq_iff[OF assms(3,4)])

lemma raw_path_eq_iff:
  assumes "map_of CITIES c = Some ll" "map_of CITIES c' = Some ll'"
    and "valid_datetime s" "valid_datetime t"
  shows "raw_path c s = raw_path c' t \<longleftrightarrow> c = c' \<and> second_of s = second_of t"
  using name_eq_iff[of "strftime_Ymd_HMS s" "strftime_Ymd_HMS t" c "''_raw_''" "''.csv''" c']
  by (simp add: raw_path_key[OF assms(1)] raw_path_key[OF assms(2)] length_strftime_Ymd_HMS
      strftime_Ymd_HMS_eq_iff[OF assms(3,4)])

lemma clean_path_eq_iff:
  assumes "map_of CITIES c = Some ll" "map_of CITIES c' = Some ll'"
    and "valid_datetime s" "valid_datetime t"
  shows "clean_path c s = clean_path c' t \<longleftrightarrow> c = c' \<and> second_of s = second_of t"
  using name_eq_iff[of "strftime_Ymd_HMS s" "strftime_Ymd_HMS t" c "''_cleaned_''" "''.csv''" c']
  by (simp add: clean_path_key[OF assms(1)] clean_path_key[OF assms(2)] length_strftime_Ymd_HMS
      strftime_Ymd_HMS_eq_iff[OF assms(3,4)])

lemma paths_of_different_kind:
  assumes "map_of CITIES c = Some ll" "map_of CITIES c' = Some ll'"
  shows "raw_path c s \<noteq> clean_path c' t" "raw_path c s \<noteq> report_path c' t"
    "clean_path c s \<noteq> report_path c' t" "clean_path c s \<noteq> raw_path c' t"
    "report_path c s \<noteq> raw_path c' t" "report_path c s \<noteq> clean_path c' t"
  by (simp_all add: raw_path_key[OF assms(1)] raw_path_key[OF assms(2)]
      clean_path_key[OF assms(1)] clean_path_key[OF assms(2)]
      report_path_key[OF assms(1)] report_path_key[OF assms(2)])

lemma fst_update_forecast_accepted:
  "accepted q \<Longrightarrow> fst (update_forecast q clk df fs) =
     fs(raw_path (upper (city q)) (now_raw clk) \<mapsto> Csv_frame df,
        clean_path (upper (city q)) (now_clean clk) \<mapsto> Csv_frame (clean_data df),
        report_path (upper (city q)) (now_report clk) \<mapsto>
          Csv_report (df_table (windowed q clk df) (temp_unit q)))"
  by (simp add: update_forecast_accepted save_raw_data_def save_clean_data_def
      save_daily_report_def)

lemma report_of_accepted:
  "accepted q \<Longrightarrow> report_of (update_forecast q clk df fs) =
     Some (Csv_report (df_table (windowed q clk df) (temp_unit q)))"
  by (simp add: update_forecast_accepted report_of_def)

lemma accepted_london: "accepted london"
  by (simp add: accepted_def london_def upper_London CITIES_LONDON)

lemma upper_city_london: "upper (city london) = ''LONDON''"
  by (simp add: london_def upper_London)

lemma valid_clock_at: "h < 24 \<Longrightarrow> valid_clock (clock_at h)"
  by (simp add: valid_clock_def clock_at_def valid_datetime_def at_hour_def days_in_month_def)

lemma length_body_df_table: "length (body (df_table w u)) = length w"
  by (simp add: df_table_def)

lemma length_windowed_morning:
  "length (windowed london (clock_at 9) [obs 8 (Some 20) (Some 5) (Some 60) (Some 0)]) = 1"
  by (simp add: windowed_def clean_data_def ffill_def drop_duplicates_def Let_def london_def
      clock_at_def df_24h_def obs_def at_hour_def date_of_def)

lemma length_windowed_afternoon:
  "length (windowed london (clock_at 15)
     [obs 8 (Some 20) (Some 5) (Some 60) (Some 0), obs 14 (Some 27) (Some 5) (Some 60) (Some 0)]) = 2"
  by (simp add: windowed_def clean_data_def ffill_def drop_duplicates_def Let_def london_def
      clock_at_def df_24h_def obs_def at_hour_def date_of_def)

lemma report_path_same_day:
  "report_path c (now_report (clock_at h)) = report_path c (at_hour 9)"
  by (simp add: report_path_def strftime_Ymd_def clock_at_def at_hour_def)

lemma reports_differ:
  "report_of afternoon_run \<noteq> report_of morning_run"
proof
  assume "report_of afternoon_run = report_of morning_run"
  then have "df_table (windowed london (clock_at 15)
       [obs 8 (Some 20) (Some 5) (Some 60) (Some 0), obs 14 (Some 27) (Some 5) (Some 60) (Some 0)])
       (temp_unit london) =
     df_table (windowed london (clock_at 9) [obs 8 (Some 20) (Some 5) (Some 60) (Some 0)])
       (temp_unit london)"
    by (simp add: afternoon_run_def morning_run_def report_of_accepted[OF accepted_london])
  then have "length (body (df_table (windowed london (clock_at 15)
       [obs 8 (Some 20) (Some 5) (Some 60) (Some 0), obs 14 (Some 27) (Some 5) (Some 60) (Some 0)])
       (temp_unit london))) =
     length (body (df_table (windowed london (clock_at 9)
       [obs 8 (Some 20) (Some 5) (Some 60) (Some 0)]) (temp_unit london)))"
    by simp
  then show False
    by (simp only: length_body_df_table length_windowed_morning length_windowed_afternoon)
qed

text \<open>
  C2, as stated: no snapshot write replaces a snapshot written before, and the report of a
  second run never replaces the report of a first.  The report file is named by the city
  and the day, so it fails for two runs for the same city on the same day: after the
  afternoon run the file of the morning run holds the afternoon's table.
\<close>

theorem report_snapshot_replaced:
  "fst morning_run (report_path ''LONDON'' (at_hour 9)) = report_of morning_run \<and>
   report_of morning_run \<noteq> None \<and>
   fst afternoon_run (report_path ''LONDON'' (at_hour 9)) \<noteq> report_of morning_run"
proof (intro conjI)
  show "fst morning_run (report_path ''LONDON'' (at_hour 9)) = report_of morning_run"
    by (simp add: morning_run_def fst_update_forecast_accepted[OF accepted_london]
        report_of_accepted[OF accepted_london] upper_city_london report_path_same_day)
  show "report_of morning_run \<noteq> None"
    by (simp add: morning_run_def report_of_accepted[OF accepted_london])
  have "fst afternoon_run (report_path ''LONDON'' (at_hour 9)) = report_of afternoon_run"
    by (simp add: afternoon_run_def fst_update_forecast_accepted[OF accepted_london]
        report_of_accepted[OF accepted_london] upper_city_london report_path_same_day)
  with reports_differ
  show "fst afternoon_run (report_path ''LONDON'' (at_hour 9)) \<noteq> report_of morning_run"
    by simp
qed

text \<open>
  C2, amended: a snapshot is written under a name made of the city and the time of the
  write, cut to the second for the raw and the cleaned frame and to the day for the report.
  After a second run, the file of a first run holds the second run's content exactly when
  both runs have the same city and the same second (raw, cleaned) or the same day
  (report); otherwise it holds what the first run wrote.
\<close>

theorem snapshot_replaced_iff_same_name:
  assumes "accepted q1" and "accepted q2" and "valid_clock c1" and "valid_clock c2"
  shows "fst (update_forecast q2 c2 d2 (fst (update_forecast q1 c1 d1 fs)))
           (report_path (upper (city q1)) (now_report c1)) =
         (if upper (city q1) = upper (city q2) \<and> date_of (now_report c1) = date_of (now_report c2)
          then report_of (update_forecast q2 c2 d2 (fst (update_forecast q1 c1 d1 fs)))
          else report_of (update_forecast q1 c1 d1 fs)) \<and>
         fst (update_forecast q2 c2 d2 (fst (update_forecast q1 c1 d1 fs)))
           (raw_path (upper (city q1)) (now_raw c1)) =
         Some (Csv_frame
           (if upper (city q1) = upper (city q2) \<and> second_of (now_raw c1) = second_of (now_raw c2)
            then d2 else d1)) \<and>
         fst (update_forecast q2 c2 d2 (fst (update_forecast q1 c1 d1 fs)))
           (clean_path (upper (city q1)) (now_clean c1)) =
         Some (Csv_frame (clean_data
           (if upper (city q1) = upper (city q2) \<and> second_of (now_clean c1) = second_of (now_clean c2)
            then d2 else d1)))"
proof -
  from assms(1) obtain l1 where k1: "map_of CITIES (upper (city q1)) = Some l1"
    unfolding accepted_def by blast
  from assms(2) obtain l2 where k2: "map_of CITIES (upper (city q2)) = Some l2"
    unfolding accepted_def by blast
  from assms(3) have v1: "valid_datetime (now_raw c1)" "valid_datetime (now_clean c1)"
    "valid_datetime (now_report c1)" by (simp_all add: valid_clock_def)
  from assms(4) have v2: "valid_datetime (now_raw c2)" "valid_datetime (now_clean c2)"
    "valid_datetime (now_report c2)" by (simp_all add: valid_clock_def)
  note eqs = report_path_eq_iff[OF k1 k2 v1(3) v2(3)] raw_path_eq_iff[OF k1 k2 v1(1) v2(1)]
    clean_path_eq_iff[OF k1 k2 v1(2) v2(2)]
  note neqs = paths_of_different_kind[OF k1 k2] paths_of_different_kind[OF k1 k1]
    paths_of_different_kind[OF k2 k2] paths_of_different_kind[OF k2 k1]
  show ?thesis
    by (simp add: fst_update_forecast_accepted[OF assms(1)] fst_update_forecast_accepted[OF assms(2)]
        report_of_accepted[OF assms(1)] report_of_accepted[OF assms(2)] eqs neqs)
qed

theorem snapshot_replaced_iff_same_name_witness:
  "accepted london \<and> valid_clock (clock_at 9) \<and> valid_clock (clock_at 15) \<and>
   fst afternoon_run (report_path ''LONDON'' (at_hour 9)) = report_of afternoon_run \<and>
   fst afternoon_run (raw_path ''LONDON'' (at_hour 9)) =
     Some (Csv_frame [obs 8 (Some 20) (Some 5) (Some 60) (Some 0)]) \<and>
   fst afternoon_run (clean_path ''LONDON'' (at_hour 9)) =
     Some (Csv_frame (clean_data [obs 8 (Some 20) (Some 5) (Some 60) (Some 0)]))"
proof -
  have v: "valid_clock (clock_at 9)" "valid_clock (clock_at 15)"
    by (simp_all add: valid_clock_at)
  have d: "date_of (at_hour 9) = date_of (now_report (clock_at 15))"
    "second_of (at_hour 9) \<noteq> second_of (now_raw (clock_at 15))"
    "second_of (at_hour 9) \<noteq> second_of (now_clean (clock_at 15))"
    "now_report (clock_at 9) = at_hour 9" "now_raw (clock_at 9) = at_hour 9"
    "now_clean (clock_at 9) = at_hour 9"
    by (simp_all add: clock_at_def at_hour_def date_of_def second_of_def)
  from snapshot_replaced_iff_same_name[OF accepted_london accepted_london v,
      of "[obs 8 (Some 20) (Some 5) (Some 60) (Some 0), obs 14 (Some 27) (Some 5) (Some 60) (Some 0)]"
         "[obs 8 (Some 20) (Some 5) (Some 60) (Some 0)]" Map.empty]
  show ?thesis
    by (simp add: d upper_city_london accepted_london v afternoon_run_def morning_run_def)
qed

end
